theory Spec2Isabelle
  imports Complex_Main
begin

section \<open>Strings\<close>

text \<open>
  A Python string is modelled as a \<^typ>\<open>string\<close>; a \<^typ>\<open>char\<close> stands for a
  code point below 256. Floating-point numbers are modelled as exact rationals.
\<close>

definition is_space :: "char \<Rightarrow> bool" where
  \<comment> \<open>the code points below 256 that \<^verbatim>\<open>str.strip()\<close> removes\<close>
  "is_space c = (of_char c \<in> {9, 10, 11, 12, 13, 28, 29, 30, 31, 32, 133, 160 :: nat})"

definition strip :: "string \<Rightarrow> string" where
  \<comment> \<open>\<^verbatim>\<open>s.strip()\<close>\<close>
  "strip s = rev (dropWhile is_space (rev (dropWhile is_space s)))"

fun join :: "string \<Rightarrow> string list \<Rightarrow> string" where
  \<comment> \<open>\<^verbatim>\<open>sep.join(xs)\<close>\<close>
  "join sep [] = []"
| "join sep [x] = x"
| "join sep (x # y # ys) = x @ sep @ join sep (y # ys)"

section \<open>The document as the engine presents it\<close>

record block =
  \<comment> \<open>one tuple of \<^verbatim>\<open>page.get_text("blocks")\<close>, positions 0 to 6\<close>
  b_x0 :: rat
  b_y0 :: rat
  b_x1 :: rat
  b_y1 :: rat
  b_text :: string
  b_no :: int
  b_type :: int

record page =
  p_text :: string
  p_blocks :: "block list"
  p_width :: rat
  p_height :: rat
  p_images :: "nat list"

record document =
  d_pages :: "page list"
  d_metadata :: "string \<rightharpoonup> string"

section \<open>Classification\<close>

fun count_text :: "page list \<Rightarrow> int \<times> int \<Rightarrow> int \<times> int" where
  \<comment> \<open>the loop of \<^verbatim>\<open>is_native_pdf\<close> over the pages, on the two counters\<close>
  "count_text [] (pages_with_text, total_text_length) = (pages_with_text, total_text_length)"
| "count_text (p # ps) (pages_with_text, total_text_length) =
     (let text = strip (p_text p)
      in count_text ps
           (if length text > 50 then pages_with_text + 1 else pages_with_text,
            total_text_length + int (length text)))"

definition is_native_pdf :: "document \<Rightarrow> rat \<times> string" where
  "is_native_pdf doc =
     (let total_pages = int (length (d_pages doc));
          (pages_with_text, total_text_length) = count_text (d_pages doc) (0, 0)
      in if total_pages = 0 then (0, ''empty'')
         else
           let text_ratio = (of_int pages_with_text / of_int total_pages :: rat);
               avg_text_per_page = (of_int total_text_length / of_int total_pages :: rat)
           in if text_ratio > 0.8 \<and> avg_text_per_page > 100 then (1.0, ''native'')
              else if text_ratio > 0.3 \<or> avg_text_per_page > 50 then (text_ratio, ''mixed'')
              else (0.0, ''scanned''))"

definition text_ratio :: "document \<Rightarrow> rat" where
  \<comment> \<open>the local \<^verbatim>\<open>text_ratio\<close> of \<^verbatim>\<open>is_native_pdf\<close>\<close>
  "text_ratio doc =
     of_int (fst (count_text (d_pages doc) (0, 0))) / of_int (int (length (d_pages doc)))"

definition avg_text_per_page :: "document \<Rightarrow> rat" where
  \<comment> \<open>the local \<^verbatim>\<open>avg_text_per_page\<close> of \<^verbatim>\<open>is_native_pdf\<close>\<close>
  "avg_text_per_page doc =
     of_int (snd (count_text (d_pages doc) (0, 0))) / of_int (int (length (d_pages doc)))"

section \<open>Page selection\<close>

datatype py_error =
    InvalidLiteral string  \<comment> \<open>ValueError: invalid literal for int() with base 10\<close>
  | ExceedsDigitLimit      \<comment> \<open>ValueError: exceeds the limit for integer string conversion\<close>
  | TooManyValues          \<comment> \<open>ValueError: too many values to unpack (expected 2)\<close>
  | NotEnoughValues        \<comment> \<open>ValueError: not enough values to unpack (expected 2, got 1)\<close>
  | IndexError int         \<comment> \<open>IndexError: page not in document\<close>
  | EngineError string     \<comment> \<open>an exception of the PDF engine or of the request decoding\<close>

fun split_on :: "char \<Rightarrow> string \<Rightarrow> string list" where
  \<comment> \<open>\<^verbatim>\<open>s.split(sep)\<close> for a separator of one character\<close>
  "split_on sep [] = [[]]"
| "split_on sep (c # cs) =
     (if c = sep then [] # split_on sep cs
      else case split_on sep cs of
             w # ws \<Rightarrow> (c # w) # ws
           | [] \<Rightarrow> [[c]])"

definition int_space :: "char \<Rightarrow> bool" where
  \<comment> \<open>the code points below 256 that \<^verbatim>\<open>int()\<close> skips around a numeral\<close>
  "int_space c = (of_char c \<in> {9, 10, 11, 12, 13, 32, 133, 160 :: nat})"

definition is_digit :: "char \<Rightarrow> bool" where
  "is_digit c = (48 \<le> (of_char c :: nat) \<and> (of_char c :: nat) \<le> 57)"

definition digit_value :: "char \<Rightarrow> int" where
  "digit_value c = int (of_char c) - 48"

definition max_str_digits :: nat where
  \<comment> \<open>the interpreter's default limit on the digits of a decimal numeral\<close>
  "max_str_digits = 4300"

fun scan_digits :: "string \<Rightarrow> char \<Rightarrow> int \<Rightarrow> nat \<Rightarrow> (int \<times> nat \<times> string) option" where
  \<comment> \<open>digits with single underscores between them: the value, the number of digits
      and the rest of the string; None for a doubled or a trailing underscore\<close>
  "scan_digits [] prev acc digits =
     (if prev = CHR ''_'' then None else Some (acc, digits, []))"
| "scan_digits (c # cs) prev acc digits =
     (if c = CHR ''_'' then (if prev = CHR ''_'' then None else scan_digits cs c acc digits)
      else if is_digit c then scan_digits cs c (10 * acc + digit_value c) (Suc digits)
      else if prev = CHR ''_'' then None
      else Some (acc, digits, c # cs))"

definition py_int :: "string \<Rightarrow> py_error + int" where
  \<comment> \<open>\<^verbatim>\<open>int(s)\<close> on a string\<close>
  "py_int s =
     (let s1 = dropWhile int_space s;
          (sign, s2) = (case s1 of
                          [] \<Rightarrow> (1, s1)
                        | c # cs \<Rightarrow> if c = CHR ''+'' then (1, cs)
                                    else if c = CHR ''-'' then (- 1, cs)
                                    else (1, s1))
      in case s2 of
           [] \<Rightarrow> Inl (InvalidLiteral s)
         | c # cs \<Rightarrow>
             if \<not> is_digit c then Inl (InvalidLiteral s)
             else case scan_digits s2 (CHR ''0'') 0 0 of
                    None \<Rightarrow> Inl (InvalidLiteral s)
                  | Some (v, digits, rest) \<Rightarrow>
                      if digits > max_str_digits then Inl ExceedsDigitLimit
                      else if dropWhile int_space rest = [] then Inr (sign * v)
                      else Inl (InvalidLiteral s))"

definition py_range :: "int \<Rightarrow> int \<Rightarrow> int list" where
  \<comment> \<open>\<^verbatim>\<open>range(start, end)\<close>\<close>
  "py_range start end' = [start .. end' - 1]"

definition parse_part :: "int set \<Rightarrow> string \<Rightarrow> int \<Rightarrow> py_error + int set" where
  \<comment> \<open>one round of the loop of \<^verbatim>\<open>parse_pages\<close>\<close>
  "parse_part pages part0 total_pages =
     (let part = strip part0
      in if CHR ''-'' \<in> set part then
           (case split_on (CHR ''-'') part of
              [start, end'] \<Rightarrow>
                (case py_int start of
                   Inl e \<Rightarrow> Inl e
                 | Inr s \<Rightarrow>
                     let start = max 0 (s - 1)
                     in case py_int end' of
                          Inl e \<Rightarrow> Inl e
                        | Inr e \<Rightarrow>
                            let end' = min total_pages e
                            in Inr (pages \<union> set (py_range start end')))
            | [] \<Rightarrow> Inl NotEnoughValues
            | [x] \<Rightarrow> Inl NotEnoughValues
            | _ \<Rightarrow> Inl TooManyValues)
         else
           (case py_int part of
              Inl e \<Rightarrow> Inl e
            | Inr n \<Rightarrow>
                let page_num = n - 1
                in if 0 \<le> page_num \<and> page_num < total_pages
                   then Inr (insert page_num pages)
                   else Inr pages))"

fun parse_parts :: "string list \<Rightarrow> int set \<Rightarrow> int \<Rightarrow> py_error + int set" where
  "parse_parts [] pages total_pages = Inr pages"
| "parse_parts (part # parts) pages total_pages =
     (case parse_part pages part total_pages of
        Inl e \<Rightarrow> Inl e
      | Inr pages' \<Rightarrow> parse_parts parts pages' total_pages)"

definition parse_pages :: "string \<Rightarrow> int \<Rightarrow> py_error + int list" where
  "parse_pages pages_param total_pages =
     (case parse_parts (split_on (CHR '','') pages_param) {} total_pages of
        Inl e \<Rightarrow> Inl e
      | Inr pages \<Rightarrow> Inr (sorted_list_of_set pages))"

section \<open>Extraction\<close>

definition doc_getitem :: "document \<Rightarrow> int \<Rightarrow> py_error + page" where
  \<comment> \<open>\<^verbatim>\<open>doc[page_num]\<close> for an index from 0; an index past the last page raises.
      Negative indices, which the engine counts from the end, are reported as errors
      here: neither \<^verbatim>\<open>range\<close> nor \<^verbatim>\<open>parse_pages\<close> produces one.\<close>
  "doc_getitem doc page_num =
     (if 0 \<le> page_num \<and> page_num < int (length (d_pages doc))
      then Inr (d_pages doc ! nat page_num)
      else Inl (IndexError page_num))"

definition newline :: string where
  "newline = [CHR 0x0A]"

definition blank_line :: string where
  "blank_line = [CHR 0x0A, CHR 0x0A]"

record bbox =
  x0 :: rat
  y0 :: rat
  x1 :: rat
  y1 :: rat

record out_block =
  ob_text :: string
  ob_bbox :: bbox

record page_detail =
  pd_page :: int
  pd_blocks :: "out_block list"

record extraction =
  \<comment> \<open>the dictionary the extractors return; \<^verbatim>\<open>pages_detail\<close> is None where the key
      is absent\<close>
  r_text :: string
  r_pages_detail :: "page_detail list option"

fun collect_texts :: "document \<Rightarrow> int list \<Rightarrow> string list \<Rightarrow> py_error + string list" where
  \<comment> \<open>the loop of \<^verbatim>\<open>extract_text\<close>\<close>
  "collect_texts doc [] texts = Inr texts"
| "collect_texts doc (page_num # pages) texts =
     (case doc_getitem doc page_num of
        Inl e \<Rightarrow> Inl e
      | Inr page \<Rightarrow> collect_texts doc pages (texts @ [p_text page]))"

definition extract_text :: "document \<Rightarrow> int list \<Rightarrow> py_error + extraction" where
  "extract_text doc pages =
     (case collect_texts doc pages [] of
        Inl e \<Rightarrow> Inl e
      | Inr texts \<Rightarrow> Inr \<lparr>r_text = join blank_line texts, r_pages_detail = None\<rparr>)"

fun scan_blocks ::
  "block list \<Rightarrow> string list \<times> out_block list \<Rightarrow> string list \<times> out_block list" where
  \<comment> \<open>the inner loop of \<^verbatim>\<open>extract_blocks\<close>, on (\<^verbatim>\<open>page_text\<close>, \<^verbatim>\<open>page_blocks\<close>)\<close>
  "scan_blocks [] (page_text, page_blocks) = (page_text, page_blocks)"
| "scan_blocks (block # blocks) (page_text, page_blocks) =
     (if b_type block = 0 then
        (let text = strip (b_text block)
         in if text \<noteq> [] then
              scan_blocks blocks
                (page_text @ [text],
                 page_blocks @
                   [\<lparr>ob_text = text,
                     ob_bbox = \<lparr>x0 = b_x0 block, y0 = b_y0 block,
                                x1 = b_x1 block, y1 = b_y1 block\<rparr>\<rparr>])
            else scan_blocks blocks (page_text, page_blocks))
      else scan_blocks blocks (page_text, page_blocks))"

fun collect_blocks ::
  "document \<Rightarrow> int list \<Rightarrow> string list \<times> page_detail list \<Rightarrow>
     py_error + string list \<times> page_detail list" where
  \<comment> \<open>the outer loop of \<^verbatim>\<open>extract_blocks\<close>, on (\<^verbatim>\<open>all_text\<close>, \<^verbatim>\<open>pages_detail\<close>)\<close>
  "collect_blocks doc [] (all_text, pages_detail) = Inr (all_text, pages_detail)"
| "collect_blocks doc (page_num # pages) (all_text, pages_detail) =
     (case doc_getitem doc page_num of
        Inl e \<Rightarrow> Inl e
      | Inr page \<Rightarrow>
          (let (page_text, page_blocks) = scan_blocks (p_blocks page) ([], [])
           in collect_blocks doc pages
                (all_text @ [join newline page_text],
                 pages_detail @ [\<lparr>pd_page = page_num + 1, pd_blocks = page_blocks\<rparr>])))"

definition extract_blocks :: "document \<Rightarrow> int list \<Rightarrow> py_error + extraction" where
  "extract_blocks doc pages =
     (case collect_blocks doc pages ([], []) of
        Inl e \<Rightarrow> Inl e
      | Inr (all_text, pages_detail) \<Rightarrow>
          Inr \<lparr>r_text = join blank_line all_text, r_pages_detail = Some pages_detail\<rparr>)"

section \<open>The request handlers\<close>

record request =
  \<comment> \<open>what \<^verbatim>\<open>get_pdf_from_request\<close> returns (Inl: it raised), and the form and query
      parameters\<close>
  rq_pdf :: "py_error + string option"
  rq_form :: "string \<rightharpoonup> string"
  rq_args :: "string \<rightharpoonup> string"

datatype handle = NotOpened | Opened | Closed

datatype 'a body =
    Success 'a       \<comment> \<open>\<^verbatim>\<open>success: True\<close> and the payload\<close>
  | MissingFile      \<comment> \<open>\<^verbatim>\<open>error: Aucun fichier PDF fourni\<close>\<close>
  | Failed py_error  \<comment> \<open>\<^verbatim>\<open>success: False, error: str(e)\<close>\<close>

type_synonym 'a response = "nat \<times> 'a body"

record extract_payload =
  e_text :: string
  e_pages_count :: int
  e_pages_extracted :: int
  e_characters_count :: int
  e_pdf_type :: string
  e_native_score :: rat
  e_needs_ocr :: bool
  e_pages_detail :: "page_detail list option"

definition truthy :: "string option \<Rightarrow> bool" where
  "truthy v = (case v of None \<Rightarrow> False | Some s \<Rightarrow> s \<noteq> [])"

definition py_or :: "string option \<Rightarrow> string option \<Rightarrow> string option" where
  \<comment> \<open>\<^verbatim>\<open>a or b\<close>\<close>
  "py_or a b = (if truthy a then a else b)"

definition pages_param :: "request \<Rightarrow> string option" where
  "pages_param req = py_or (rq_form req ''pages'') (rq_args req ''pages'')"

definition output_format :: "request \<Rightarrow> string" where
  "output_format req =
     (case py_or (py_or (rq_form req ''format'') (rq_args req ''format'')) (Some ''text'') of
        Some s \<Rightarrow> s
      | None \<Rightarrow> ''text'')"

fun bit_length :: "nat \<Rightarrow> nat" where
  \<comment> \<open>\<^verbatim>\<open>int.bit_length\<close>: the number of binary digits\<close>
  "bit_length n = (if n = 0 then 0 else Suc (bit_length (n div 2)))"

definition round_half_even :: "rat \<Rightarrow> int" where
  \<comment> \<open>to the nearest integer, ties to the even one\<close>
  "round_half_even y =
     (let f = \<lfloor>y\<rfloor>; d = y - of_int f
      in if d < 1 / 2 then f
         else if 1 / 2 < d then f + 1
         else if even f then f else f + 1)"

definition binary64 :: "rat \<Rightarrow> rat" where
  \<comment> \<open>the double that stands for the exact value \<open>x\<close>: the nearest number with a
      significand of 53 bits (steps of \<^verbatim>\<open>2 ** -1074\<close> below the normal range), ties to
      even. This is the value of \<^verbatim>\<open>p / q\<close> on two integers. Overflow (from \<^verbatim>\<open>2 ** 1024\<close> on) is
      left out: the scores lie between 0 and 1.\<close>
  "binary64 x =
     (if x = 0 then 0
      else
        let a = \<bar>x\<bar>;
            k = int (bit_length (nat (fst (quotient_of a)))) -
                int (bit_length (nat (snd (quotient_of a))));
            e = (if power_int 2 k \<le> a then k else k - 1);
            u = power_int 2 (max (e - 52) (- 1074))
        in sgn x * of_int (round_half_even (a / u)) * u)"

definition py_round2 :: "rat \<Rightarrow> rat" where
  \<comment> \<open>\<^verbatim>\<open>round(x, 2)\<close> on a float: the exact value of the double is rounded to the nearest
      hundredth, ties to even, and the result is the double nearest to that hundredth,
      written here as the hundredth itself. The argument is the exact quotient that the
      classifier's division rounds to a double, so \<^verbatim>\<open>round(13 / 40, 2)\<close> is 0.33 (the double
      of 0.325 lies above it), and \<^verbatim>\<open>round(1 / 8, 2)\<close> is 0.12.\<close>
  "py_round2 x = of_int (round_half_even (binary64 x * 100)) / 100"

definition select_pages :: "request \<Rightarrow> int \<Rightarrow> py_error + int list" where
  \<comment> \<open>the handler's \<^verbatim>\<open>pages_to_extract\<close>: all pages, unless \<^verbatim>\<open>pages\<close> is given and not empty\<close>
  "select_pages req total_pages =
     (case pages_param req of
        None \<Rightarrow> Inr (py_range 0 total_pages)
      | Some s \<Rightarrow>
          if s \<noteq> [] then parse_pages s total_pages else Inr (py_range 0 total_pages))"

definition extract_route ::
  "(string \<Rightarrow> py_error + document) \<Rightarrow> request \<Rightarrow> extract_payload response \<times> handle" where
  \<comment> \<open>the handler \<^verbatim>\<open>extract\<close> of the route \<^verbatim>\<open>/extract\<close>, over the engine's
      \<^verbatim>\<open>fitz.open\<close>: the response, and the state of the document when the response
      is produced\<close>
  "extract_route fitz_open req =
     (case rq_pdf req of
        Inl e \<Rightarrow> ((500, Failed e), NotOpened)
      | Inr None \<Rightarrow> ((400, MissingFile), NotOpened)
      | Inr (Some pdf_bytes) \<Rightarrow>
          if pdf_bytes = [] then ((400, MissingFile), NotOpened)
          else
            (case fitz_open pdf_bytes of
               Inl e \<Rightarrow> ((500, Failed e), NotOpened)
             | Inr doc \<Rightarrow>
                 (let total_pages = int (length (d_pages doc))
                  in case select_pages req total_pages of
                       Inl e \<Rightarrow> ((500, Failed e), Opened)
                     | Inr pages_to_extract \<Rightarrow>
                         (let (native_score, pdf_type) = is_native_pdf doc
                          in case (if output_format req = ''blocks''
                                   then extract_blocks doc pages_to_extract
                                   else extract_text doc pages_to_extract) of
                               Inl e \<Rightarrow> ((500, Failed e), Opened)
                             | Inr result \<Rightarrow>
                                 ((200,
                                   Success
                                     \<lparr>e_text = r_text result,
                                      e_pages_count = total_pages,
                                      e_pages_extracted = int (length pages_to_extract),
                                      e_characters_count = int (length (r_text result)),
                                      e_pdf_type = pdf_type,
                                      e_native_score = py_round2 native_score,
                                      e_needs_ocr = (pdf_type = ''scanned''),
                                      e_pages_detail =
                                        (if output_format req = ''blocks''
                                         then r_pages_detail result else None)\<rparr>),
                                  Closed)))))"

record page_info =
  pi_page :: int
  pi_width :: rat
  pi_height :: rat
  pi_has_text :: bool
  pi_has_images :: bool

record metadata_out =
  m_title :: string
  m_author :: string
  m_subject :: string
  m_creator :: string
  m_producer :: string
  m_creation_date :: string
  m_modification_date :: string

record info_payload =
  i_metadata :: metadata_out
  i_pages_count :: int
  i_pages :: "page_info list"
  i_pdf_type :: string
  i_native_score :: rat
  i_needs_ocr :: bool

definition dict_get :: "(string \<rightharpoonup> string) \<Rightarrow> string \<Rightarrow> string \<Rightarrow> string" where
  \<comment> \<open>\<^verbatim>\<open>d.get(key, default)\<close>\<close>
  "dict_get d key dflt = (case d key of None \<Rightarrow> dflt | Some v \<Rightarrow> v)"

fun collect_pages_info :: "page list \<Rightarrow> int \<Rightarrow> page_info list \<Rightarrow> page_info list" where
  \<comment> \<open>the loop of \<^verbatim>\<open>info\<close> over \<^verbatim>\<open>enumerate(doc)\<close>\<close>
  "collect_pages_info [] i pages_info = pages_info"
| "collect_pages_info (page # pages) i pages_info =
     collect_pages_info pages (i + 1)
       (pages_info @
          [\<lparr>pi_page = i + 1,
            pi_width = p_width page,
            pi_height = p_height page,
            pi_has_text = (length (strip (p_text page)) > 50),
            pi_has_images = (length (p_images page) > 0)\<rparr>])"

definition info ::
  "(string \<Rightarrow> py_error + document) \<Rightarrow> request \<Rightarrow> info_payload response \<times> handle" where
  \<comment> \<open>the handler of \<^verbatim>\<open>/info\<close>\<close>
  "info fitz_open req =
     (case rq_pdf req of
        Inl e \<Rightarrow> ((500, Failed e), NotOpened)
      | Inr None \<Rightarrow> ((400, MissingFile), NotOpened)
      | Inr (Some pdf_bytes) \<Rightarrow>
          if pdf_bytes = [] then ((400, MissingFile), NotOpened)
          else
            (case fitz_open pdf_bytes of
               Inl e \<Rightarrow> ((500, Failed e), NotOpened)
             | Inr doc \<Rightarrow>
                 (let metadata = d_metadata doc;
                      (native_score, pdf_type) = is_native_pdf doc;
                      pages_info = collect_pages_info (d_pages doc) 0 []
                  in ((200,
                       Success
                         \<lparr>i_metadata =
                            \<lparr>m_title = dict_get metadata ''title'' [],
                             m_author = dict_get metadata ''author'' [],
                             m_subject = dict_get metadata ''subject'' [],
                             m_creator = dict_get metadata ''creator'' [],
                             m_producer = dict_get metadata ''producer'' [],
                             m_creation_date = dict_get metadata ''creationDate'' [],
                             m_modification_date = dict_get metadata ''modDate'' []\<rparr>,
                          i_pages_count = int (length pages_info),
                          i_pages = pages_info,
                          i_pdf_type = pdf_type,
                          i_native_score = py_round2 native_score,
                          i_needs_ocr = (pdf_type = ''scanned'')\<rparr>),
                      Closed))))"

section \<open>The classifier in the words of the specification\<close>

text \<open>The classifier as the specification words it (section 4.2).\<close>

definition trimmed_lengths :: "document \<Rightarrow> nat list" where
  "trimmed_lengths doc = map (\<lambda>p. length (strip (p_text p))) (d_pages doc)"

definition spec_totalPages :: "document \<Rightarrow> nat" where
  "spec_totalPages doc = length (d_pages doc)"

definition spec_pagesWithText :: "document \<Rightarrow> nat" where
  "spec_pagesWithText doc = length (filter (\<lambda>l. 50 < l) (trimmed_lengths doc))"

definition spec_totalTextLength :: "document \<Rightarrow> nat" where
  "spec_totalTextLength doc = sum_list (trimmed_lengths doc)"

definition spec_textRatio :: "document \<Rightarrow> rat" where
  "spec_textRatio doc = of_nat (spec_pagesWithText doc) / of_nat (spec_totalPages doc)"

definition spec_avgTextPerPage :: "document \<Rightarrow> rat" where
  "spec_avgTextPerPage doc = of_nat (spec_totalTextLength doc) / of_nat (spec_totalPages doc)"

definition spec_classify :: "document \<Rightarrow> rat \<times> string" where
  "spec_classify doc =
     (if spec_totalPages doc = 0 then (0, ''empty'')
      else if spec_textRatio doc > 8 / 10 \<and> spec_avgTextPerPage doc > 100 then (1, ''native'')
      else if spec_textRatio doc > 3 / 10 \<or> spec_avgTextPerPage doc > 50
        then (spec_textRatio doc, ''mixed'')
      else (0, ''scanned''))"

section \<open>Block extraction in the words of the specification\<close>

text \<open>Section 4.4 of the specification: which blocks are kept, and what a kept block and
  a page detail hold.\<close>

definition spec_kept :: "block \<Rightarrow> bool" where
  \<comment> \<open>the kind is text and the trimmed text is not empty\<close>
  "spec_kept b = (b_type b = 0 \<and> strip (b_text b) \<noteq> [])"

definition spec_bbox :: "block \<Rightarrow> bbox" where
  \<comment> \<open>the original bounding box\<close>
  "spec_bbox b = \<lparr>x0 = b_x0 b, y0 = b_y0 b, x1 = b_x1 b, y1 = b_y1 b\<rparr>"

definition spec_emit :: "block \<Rightarrow> out_block" where
  "spec_emit b = \<lparr>ob_text = strip (b_text b), ob_bbox = spec_bbox b\<rparr>"

definition spec_page_detail :: "document \<Rightarrow> int \<Rightarrow> page_detail" where
  \<comment> \<open>page number = index + 1, blocks = the kept blocks in their original order\<close>
  "spec_page_detail doc i =
     \<lparr>pd_page = i + 1,
      pd_blocks = map spec_emit (filter spec_kept (p_blocks (d_pages doc ! nat i)))\<rparr>"

section \<open>Example documents\<close>

definition text_page :: "string \<Rightarrow> page" where
  \<comment> \<open>an A4 page with the given text and no blocks or images\<close>
  "text_page t = \<lparr>p_text = t, p_blocks = [], p_width = 595, p_height = 842, p_images = []\<rparr>"

definition doc_long :: document where
  \<comment> \<open>two pages of 101 and 150 characters\<close>
  "doc_long =
     \<lparr>d_pages = [text_page (replicate 101 (CHR ''a'')), text_page (replicate 150 (CHR ''b''))],
      d_metadata = Map.empty\<rparr>"

definition doc_ratio_boundary :: document where
  \<comment> \<open>four pages of 60 characters and an empty one: four fifths of the pages have text\<close>
  "doc_ratio_boundary =
     \<lparr>d_pages = [text_page (replicate 60 (CHR ''a'')), text_page (replicate 60 (CHR ''a'')),
                 text_page (replicate 60 (CHR ''a'')), text_page (replicate 60 (CHR ''a'')),
                 text_page []],
      d_metadata = Map.empty\<rparr>"

definition doc_avg_boundary :: document where
  \<comment> \<open>one page of exactly 100 characters\<close>
  "doc_avg_boundary =
     \<lparr>d_pages = [text_page (replicate 100 (CHR ''a''))], d_metadata = Map.empty\<rparr>"

definition doc_blocks :: document where
  \<comment> \<open>one page with two text blocks, an image block and a text block of spaces\<close>
  "doc_blocks =
     \<lparr>d_pages =
        [\<lparr>p_text = ''Hello World'',
          p_blocks =
            [\<lparr>b_x0 = 72, b_y0 = 72, b_x1 = 200, b_y1 = 90, b_text = '' Hello '', b_no = 0,
              b_type = 0\<rparr>,
             \<lparr>b_x0 = 72, b_y0 = 100, b_x1 = 300, b_y1 = 400, b_text = ''<image>'', b_no = 1,
              b_type = 1\<rparr>,
             \<lparr>b_x0 = 72, b_y0 = 410, b_x1 = 80, b_y1 = 420, b_text = ''   '', b_no = 2,
              b_type = 0\<rparr>,
             \<lparr>b_x0 = 72, b_y0 = 430, b_x1 = 200, b_y1 = 450, b_text = ''World'', b_no = 3,
              b_type = 0\<rparr>],
          p_width = 595, p_height = 842, p_images = [7]\<rparr>],
      d_metadata = Map.empty\<rparr>"

definition mk_request :: "string option \<Rightarrow> string option \<Rightarrow> request" where
  \<comment> \<open>an upload with the given \<^verbatim>\<open>pages\<close> and \<^verbatim>\<open>format\<close> form fields\<close>
  "mk_request pages fmt =
     \<lparr>rq_pdf = Inr (Some ''%PDF-1.7''),
      rq_form = (\<lambda>k. if k = ''pages'' then pages else if k = ''format'' then fmt else None),
      rq_args = Map.empty\<rparr>"

definition open_as :: "document \<Rightarrow> string \<Rightarrow> py_error + document" where
  \<comment> \<open>an engine that opens every upload as the given document\<close>
  "open_as doc pdf_bytes = Inr doc"

definition doc_scanned :: document where
  \<comment> \<open>one page whose text is a single space\<close>
  "doc_scanned = \<lparr>d_pages = [text_page '' ''], d_metadata = Map.empty\<rparr>"

section \<open>Properties of the classifier\<close>

lemma count_text_acc:
  "count_text ps (w, t) =
     (w + int (length (filter (\<lambda>l. 50 < l) (map (\<lambda>p. length (strip (p_text p))) ps))),
      t + int (sum_list (map (\<lambda>p. length (strip (p_text p))) ps)))"
  by (induction ps arbitrary: w t) (simp_all add: Let_def)

lemma count_text_spec:
  "count_text (d_pages doc) (0, 0) =
     (int (spec_pagesWithText doc), int (spec_totalTextLength doc))"
  by (simp add: count_text_acc spec_pagesWithText_def spec_totalTextLength_def
      trimmed_lengths_def)

text \<open>
  C1: the classifier computes exactly the decision table of the specification: trimmed
  page lengths, pages with more than 50 characters counted as having text, the two
  quotients over the page count, and the four rules in order with strict comparisons.
\<close>

theorem is_native_pdf_decision_table: "is_native_pdf doc = spec_classify doc"
  by (simp add: is_native_pdf_def spec_classify_def count_text_spec spec_textRatio_def
      spec_avgTextPerPage_def spec_totalPages_def Let_def)

lemma count_text_all_long:
  assumes "\<forall>p \<in> set ps. 100 < length (strip (p_text p))"
  shows "fst (count_text ps (0, 0)) = int (length ps) \<and>
         101 * int (length ps) \<le> snd (count_text ps (0, 0))"
proof -
  have f: "filter (\<lambda>l. 50 < l) (map (\<lambda>p. length (strip (p_text p))) ps) =
           map (\<lambda>p. length (strip (p_text p))) ps"
    using assms by (auto simp: filter_id_conv)
  have s: "101 * length ps \<le> sum_list (map (\<lambda>p. length (strip (p_text p))) ps)"
    using assms by (induction ps) auto
  show ?thesis
    using s by (simp add: count_text_acc f)
qed

lemma is_native_pdf_unfold:
  "is_native_pdf doc =
     (if d_pages doc = [] then (0, ''empty'')
      else if text_ratio doc > 8 / 10 \<and> avg_text_per_page doc > 100 then (1, ''native'')
      else if text_ratio doc > 3 / 10 \<or> avg_text_per_page doc > 50
        then (text_ratio doc, ''mixed'')
      else (0, ''scanned''))"
  by (simp add: is_native_pdf_def text_ratio_def avg_text_per_page_def Let_def split_beta)

text \<open>
  C4: a document with at least one page, all of whose pages have more than 100
  characters after trimming, is classified native with score 1; and a document whose
  text ratio is exactly 0.8, or whose average text per page is exactly 100, is not
  classified native.
\<close>

theorem long_pages_native_strict_bounds:
  "(d_pages doc \<noteq> [] \<and> (\<forall>p \<in> set (d_pages doc). 100 < length (strip (p_text p))) \<longrightarrow>
      is_native_pdf doc = (1, ''native''))
   \<and> (text_ratio doc = 8 / 10 \<or> avg_text_per_page doc = 100 \<longrightarrow>
      snd (is_native_pdf doc) \<noteq> ''native'')"
proof (intro conjI impI)
  assume h: "d_pages doc \<noteq> [] \<and> (\<forall>p \<in> set (d_pages doc). 100 < length (strip (p_text p)))"
  let ?n = "int (length (d_pages doc))"
  from h have n: "0 < ?n" by simp
  from h have c: "fst (count_text (d_pages doc) (0, 0)) = ?n"
    and t: "101 * ?n \<le> snd (count_text (d_pages doc) (0, 0))"
    using count_text_all_long by blast+
  have r: "text_ratio doc = 1" using n by (simp add: text_ratio_def c)
  have "100 * ?n < snd (count_text (d_pages doc) (0, 0))" using t n by linarith
  then have "(100 :: rat) * of_int ?n < of_int (snd (count_text (d_pages doc) (0, 0)))"
    by (metis of_int_less_iff of_int_mult of_int_numeral)
  then have a: "100 < avg_text_per_page doc"
    using n by (simp add: avg_text_per_page_def pos_less_divide_eq)
  show "is_native_pdf doc = (1, ''native'')"
    using h r a by (simp add: is_native_pdf_unfold)
next
  assume "text_ratio doc = 8 / 10 \<or> avg_text_per_page doc = 100"
  then show "snd (is_native_pdf doc) \<noteq> ''native''"
    by (auto simp: is_native_pdf_unfold)
qed

theorem long_pages_native_strict_bounds_witness:
  "is_native_pdf doc_long = (1, ''native'') \<and>
   text_ratio doc_ratio_boundary = 8 / 10 \<and> snd (is_native_pdf doc_ratio_boundary) \<noteq> ''native'' \<and>
   avg_text_per_page doc_avg_boundary = 100 \<and> snd (is_native_pdf doc_avg_boundary) \<noteq> ''native''"
proof -
  have hA: "d_pages doc_long \<noteq> [] \<and>
      (\<forall>p \<in> set (d_pages doc_long). 100 < length (strip (p_text p)))"
    by code_simp
  have hB: "text_ratio doc_ratio_boundary = 8 / 10" by code_simp
  have hC: "avg_text_per_page doc_avg_boundary = 100" by code_simp
  show ?thesis
    using long_pages_native_strict_bounds [of doc_long]
      long_pages_native_strict_bounds [of doc_ratio_boundary]
      long_pages_native_strict_bounds [of doc_avg_boundary] hA hB hC
    by blast
qed

section \<open>Properties of page selection\<close>

lemma split_on_notin: "sep \<notin> set s \<Longrightarrow> split_on sep s = [s]"
  by (induction s) auto

lemma split_on_append:
  "sep \<notin> set a \<Longrightarrow> split_on sep (a @ sep # b) = a # split_on sep b"
  by (induction a) auto

lemma set_py_range: "set (py_range a b) = {a ..< b}"
  by (auto simp: py_range_def)

lemma parse_part_single:
  "CHR ''-'' \<notin> set (strip part) \<Longrightarrow> py_int (strip part) = Inr k \<Longrightarrow>
   parse_part pages part n = Inr (if 1 \<le> k \<and> k \<le> n then insert (k - 1) pages else pages)"
  by (auto simp: parse_part_def Let_def)

lemma parse_part_range:
  "strip part = a @ ''-'' @ b \<Longrightarrow> CHR ''-'' \<notin> set a \<Longrightarrow> CHR ''-'' \<notin> set b \<Longrightarrow>
   py_int a = Inr i \<Longrightarrow> py_int b = Inr j \<Longrightarrow>
   parse_part pages part n = Inr (pages \<union> {max 0 (i - 1) ..< min n j})"
  by (simp add: parse_part_def Let_def split_on_append split_on_notin set_py_range)

lemma parse_part_acc:
  "parse_part pages part n =
     (case parse_part {} part n of Inl e \<Rightarrow> Inl e | Inr A \<Rightarrow> Inr (pages \<union> A))"
  by (simp add: parse_part_def Let_def split: list.splits sum.splits)

lemma parse_part_bounds:
  "parse_part {} part n = Inr A \<Longrightarrow> finite A \<and> A \<subseteq> {0 ..< n}"
  by (auto simp: parse_part_def Let_def set_py_range split: list.splits sum.splits if_splits)

lemma parse_parts_Inr_iff:
  "parse_parts ts acc n = Inr S \<longleftrightarrow>
     (\<forall>t \<in> set ts. \<exists>A. parse_part {} t n = Inr A) \<and>
     S = acc \<union> (\<Union>t \<in> set ts. case parse_part {} t n of Inl e \<Rightarrow> {} | Inr A \<Rightarrow> A)"
proof (induction ts arbitrary: acc)
  case Nil
  then show ?case by auto
next
  case (Cons t ts)
  show ?case
  proof (cases "parse_part {} t n")
    case (Inl e)
    then show ?thesis by (simp add: parse_part_acc [of acc])
  next
    case (Inr A)
    then show ?thesis
      by (simp add: parse_part_acc [of acc] Cons.IH Un_assoc)
  qed
qed

lemma parse_parts_bounds:
  assumes "parse_parts ts {} n = Inr S"
  shows "finite S \<and> S \<subseteq> {0 ..< n}"
proof -
  from assms have all: "\<forall>t \<in> set ts. \<exists>A. parse_part {} t n = Inr A"
    and S: "S = (\<Union>t \<in> set ts. case parse_part {} t n of Inl e \<Rightarrow> {} | Inr A \<Rightarrow> A)"
    by (simp_all add: parse_parts_Inr_iff)
  have "\<And>t. t \<in> set ts \<Longrightarrow>
      finite (case parse_part {} t n of Inl e \<Rightarrow> {} | Inr A \<Rightarrow> A) \<and>
      (case parse_part {} t n of Inl e \<Rightarrow> {} | Inr A \<Rightarrow> A) \<subseteq> {0 ..< n}"
    using parse_part_bounds by (auto split: sum.splits)
  then show ?thesis unfolding S by blast
qed

lemma parse_parts_set_cong:
  "set ts1 = set ts2 \<Longrightarrow> parse_parts ts1 {} n = Inr S \<Longrightarrow> parse_parts ts2 {} n = Inr S"
  by (simp add: parse_parts_Inr_iff)

lemma sorted_list_of_set_upto: "sorted_list_of_set {a ..< b} = [a .. b - 1]" for a b :: int
proof -
  have "sorted_list_of_set (set [a .. b - 1]) = [a .. b - 1]"
    by (rule sorted_list_of_set.idem_if_sorted_distinct) simp_all
  moreover have "{a ..< b} = set [a .. b - 1]" by auto
  ultimately show ?thesis by (simp only:)
qed

lemma upto_0_2: "[0 .. 2 :: int] = [0, 1, 2]"
  by (simp add: upto_rec1)


lemma py_int_3: "py_int ''3'' = Inr 3" by code_simp
lemma py_int_1: "py_int ''1'' = Inr 1" by code_simp
lemma py_int_2: "py_int ''2'' = Inr 2" by code_simp
lemma strip_3: "strip ''3'' = ''3''" by code_simp
lemma strip_1: "strip ''1'' = ''1''" by code_simp
lemma strip_2: "strip ''2'' = ''2''" by code_simp
lemma strip_13: "strip ''1-3'' = ''1-3''" by code_simp

lemma parse_312:
  assumes "3 \<le> n"
  shows "parse_pages ''3,1,2'' n = Inr [0, 1, 2]"
proof -
  have sp: "split_on (CHR '','') ''3,1,2'' = [''3'', ''1'', ''2'']" by simp
  have p3: "parse_part pages ''3'' n = Inr (insert 2 pages)" for pages
    using parse_part_single [of "''3''" 3 pages n] assms by (simp add: strip_3 py_int_3)
  have p1: "parse_part pages ''1'' n = Inr (insert 0 pages)" for pages
    using parse_part_single [of "''1''" 1 pages n] assms by (simp add: strip_1 py_int_1)
  have p2: "parse_part pages ''2'' n = Inr (insert 1 pages)" for pages
    using parse_part_single [of "''2''" 2 pages n] assms by (simp add: strip_2 py_int_2)
  have "parse_parts [''3'', ''1'', ''2''] {} n = Inr {0 ..< 3}"
    by (auto simp: p1 p2 p3)
  then show ?thesis
    by (simp add: parse_pages_def sp sorted_list_of_set_upto upto_0_2 del: split_on.simps parse_parts.simps)
qed

lemma parse_1_3:
  assumes "3 \<le> n"
  shows "parse_pages ''1-3'' n = Inr [0, 1, 2]"
proof -
  have sp: "split_on (CHR '','') ''1-3'' = [''1-3'']" by simp
  have "parse_part {} ''1-3'' n = Inr ({} \<union> {max 0 (1 - 1) ..< min n 3})"
    by (rule parse_part_range [of _ "''1''" "''3''"]) (simp_all add: strip_13 py_int_1 py_int_3)
  with assms have "parse_parts [''1-3''] {} n = Inr {0 ..< 3}"
    by (simp add: min_def)
  then show ?thesis
    by (simp add: parse_pages_def sp sorted_list_of_set_upto upto_0_2 del: split_on.simps parse_parts.simps)
qed

text \<open>
  C5, amended: a token without a minus sign that \<^verbatim>\<open>int\<close> reads as the number \<open>k\<close> does not
  raise: it adds the index \<open>k - 1\<close> only when \<open>1 \<le> k \<le> total_pages\<close> and is dropped
  otherwise. A token \<open>a-b\<close> with one minus sign, both sides read by \<^verbatim>\<open>int\<close>, does not raise
  either: it adds the indices from \<open>max 0 (a - 1)\<close> up to, not including,
  \<open>min total_pages b\<close>. So \<open>"50"\<close> on 10 pages selects nothing and \<open>"5-100"\<close> selects the
  indices 4 to 9.
\<close>

theorem parse_pages_out_of_bounds:
  "(CHR ''-'' \<notin> set (strip part) \<and> py_int (strip part) = Inr k \<longrightarrow>
      parse_part pages part n =
        Inr (if 1 \<le> k \<and> k \<le> n then insert (k - 1) pages else pages))
   \<and> (strip part = a @ ''-'' @ b \<and> CHR ''-'' \<notin> set a \<and> CHR ''-'' \<notin> set b \<and>
        py_int a = Inr i \<and> py_int b = Inr j \<longrightarrow>
      parse_part pages part n = Inr (pages \<union> {max 0 (i - 1) ..< min n j}))
   \<and> parse_pages ''50'' 10 = Inr []
   \<and> parse_pages ''5-100'' 10 = Inr [4, 5, 6, 7, 8, 9]"
proof -
  have "parse_pages ''50'' 10 = Inr []" by code_simp
  moreover have "parse_pages ''5-100'' 10 = Inr [4, 5, 6, 7, 8, 9]" by code_simp
  ultimately show ?thesis
    using parse_part_single [of part k pages n] parse_part_range [of part a b i j pages n]
    by blast
qed

theorem parse_pages_out_of_bounds_witness:
  "parse_part {7} '' 12 '' 10 = Inr {7} \<and>
   parse_part {7} ''0-3'' 2 = Inr ({7} \<union> {0 ..< 2})"
proof -
  have s1: "strip '' 12 '' = ''12''" by code_simp
  have i1: "py_int ''12'' = Inr 12" by code_simp
  have s2: "strip ''0-3'' = ''0'' @ ''-'' @ ''3''" by code_simp
  have i2: "py_int ''0'' = Inr 0" by code_simp
  have i3: "py_int ''3'' = Inr 3" by code_simp
  have "parse_part {7} '' 12 '' 10 = Inr {7}"
    using parse_pages_out_of_bounds [where part = "'' 12 ''" and k = 12 and pages = "{7}"
        and n = 10]
    by (simp add: s1 i1)
  moreover have "parse_part {7} ''0-3'' 2 = Inr ({7} \<union> {0 ..< 2})"
    using parse_pages_out_of_bounds [where part = "''0-3''" and a = "''0''" and b = "''3''"
        and i = 0 and j = 3 and pages = "{7}" and n = 2] s2
    by (simp add: i2 i3)
  ultimately show ?thesis by simp
qed

text \<open>
  C5, as stated, fails: a token that holds a minus sign is always read as a range. The
  number \<open>-5\<close> lies outside \<open>[1, 10]\<close>, yet it is not dropped: the token is split at the
  sign, and \<^verbatim>\<open>int\<close> raises on the empty left side.
\<close>

theorem negative_number_raises:
  "py_int ''-5'' = Inr (- 5) \<and> parse_pages ''-5'' 10 = Inl (InvalidLiteral [])"
  by code_simp

text \<open>
  C6: whenever parsing succeeds, the result is strictly ascending (hence without
  duplicates) and every index lies in \<open>[0, total_pages)\<close>; two expressions with the same
  set of tokens, in any order and multiplicity, parse to the same list; and on at least
  three pages \<open>"3,1,2"\<close> and \<open>"1-3"\<close> both give \<open>[0, 1, 2]\<close>.
\<close>

theorem parse_pages_sorted_order_independent:
  "(parse_pages e n = Inr xs \<longrightarrow> sorted_wrt (<) xs \<and> (\<forall>x \<in> set xs. 0 \<le> x \<and> x < n))
   \<and> (set (split_on (CHR '','') e1) = set (split_on (CHR '','') e2) \<and>
        parse_pages e1 n = Inr ys \<longrightarrow> parse_pages e2 n = Inr ys)
   \<and> (3 \<le> n \<longrightarrow>
        parse_pages ''3,1,2'' n = Inr [0, 1, 2] \<and> parse_pages ''1-3'' n = Inr [0, 1, 2])"
proof (intro conjI impI)
  assume "parse_pages e n = Inr xs"
  then obtain S where S: "parse_parts (split_on (CHR '','') e) {} n = Inr S"
    and xs: "xs = sorted_list_of_set S"
    by (auto simp: parse_pages_def split: sum.splits)
  from S have fin: "finite S" and sub: "S \<subseteq> {0 ..< n}"
    using parse_parts_bounds by blast+
  show "sorted_wrt (<) xs" by (simp add: xs)
  show "\<forall>x \<in> set xs. 0 \<le> x \<and> x < n" using fin sub by (auto simp: xs)
next
  assume h: "set (split_on (CHR '','') e1) = set (split_on (CHR '','') e2) \<and>
    parse_pages e1 n = Inr ys"
  then obtain S where S: "parse_parts (split_on (CHR '','') e1) {} n = Inr S"
    and ys: "ys = sorted_list_of_set S"
    by (auto simp: parse_pages_def split: sum.splits)
  from h S have "parse_parts (split_on (CHR '','') e2) {} n = Inr S"
    using parse_parts_set_cong by blast
  then show "parse_pages e2 n = Inr ys" by (simp add: parse_pages_def ys)
next
  assume "3 \<le> n" then show "parse_pages ''3,1,2'' n = Inr [0, 1, 2]" by (rule parse_312)
next
  assume "3 \<le> n" then show "parse_pages ''1-3'' n = Inr [0, 1, 2]" by (rule parse_1_3)
qed

theorem parse_pages_sorted_order_independent_witness:
  "sorted_wrt (<) [0, 1 :: int] \<and> parse_pages ''2,1,2'' 5 = Inr [0, 1] \<and>
   parse_pages ''3,1,2'' 3 = Inr [0, 1, 2] \<and> parse_pages ''1-3'' 3 = Inr [0, 1, 2]"
proof -
  have p: "parse_pages ''1,2'' 5 = Inr [0, 1]" by code_simp
  have t: "set (split_on (CHR '','') ''1,2'') = set (split_on (CHR '','') ''2,1,2'')"
    by code_simp
  have "sorted_wrt (<) [0, 1 :: int]"
    using parse_pages_sorted_order_independent [where e = "''1,2''" and n = 5
        and xs = "[0, 1]"] p
    by blast
  moreover have "parse_pages ''2,1,2'' 5 = Inr [0, 1]"
    using parse_pages_sorted_order_independent [where ?e1.0 = "''1,2''"
        and ?e2.0 = "''2,1,2''" and n = 5 and ys = "[0, 1]"] p t
    by blast
  moreover have "parse_pages ''3,1,2'' 3 = Inr [0, 1, 2] \<and> parse_pages ''1-3'' 3 = Inr [0, 1, 2]"
    using parse_pages_sorted_order_independent [where n = 3] by simp
  ultimately show ?thesis by blast
qed

section \<open>Properties of extraction\<close>

lemma collect_texts_in_range:
  "\<forall>i \<in> set sel. 0 \<le> i \<and> i < int (length (d_pages doc)) \<Longrightarrow>
   collect_texts doc sel texts = Inr (texts @ map (\<lambda>i. p_text (d_pages doc ! nat i)) sel)"
  by (induction sel arbitrary: texts) (simp_all add: doc_getitem_def)


lemma py_range_bounds: "\<forall>i \<in> set (py_range 0 n). 0 \<le> i \<and> i < n"
  by (auto simp: py_range_def)

lemma py_range_strict: "sorted_wrt (<) (py_range a b)"
  by (simp add: py_range_def strict_sorted_iff)

lemma parse_pages_bounds:
  assumes "parse_pages e n = Inr xs"
  shows "sorted_wrt (<) xs \<and> (\<forall>x \<in> set xs. 0 \<le> x \<and> x < n)"
proof -
  from assms obtain S where S: "parse_parts (split_on (CHR '','') e) {} n = Inr S"
    and xs: "xs = sorted_list_of_set S"
    by (auto simp: parse_pages_def split: sum.splits)
  from S have "finite S" and "S \<subseteq> {0 ..< n}"
    using parse_parts_bounds by blast+
  then show ?thesis by (auto simp: xs)
qed

lemma select_pages_bounds:
  "select_pages req n = Inr sel \<Longrightarrow> sorted_wrt (<) sel \<and> (\<forall>i \<in> set sel. 0 \<le> i \<and> i < n)"
  using parse_pages_bounds py_range_bounds py_range_strict
  by (auto simp: select_pages_def split: option.splits if_splits)

lemma extract_route_opened:
  "rq_pdf req = Inr (Some bytes) \<Longrightarrow> bytes \<noteq> [] \<Longrightarrow> fitz_open bytes = Inr doc \<Longrightarrow>
   extract_route fitz_open req =
     (case select_pages req (int (length (d_pages doc))) of
        Inl e \<Rightarrow> ((500, Failed e), Opened)
      | Inr sel \<Rightarrow>
          (case (if output_format req = ''blocks'' then extract_blocks doc sel
                 else extract_text doc sel) of
             Inl e \<Rightarrow> ((500, Failed e), Opened)
           | Inr result \<Rightarrow>
               ((200,
                 Success
                   \<lparr>e_text = r_text result,
                    e_pages_count = int (length (d_pages doc)),
                    e_pages_extracted = int (length sel),
                    e_characters_count = int (length (r_text result)),
                    e_pdf_type = snd (is_native_pdf doc),
                    e_native_score = py_round2 (fst (is_native_pdf doc)),
                    e_needs_ocr = (snd (is_native_pdf doc) = ''scanned''),
                    e_pages_detail =
                      (if output_format req = ''blocks'' then r_pages_detail result
                       else None)\<rparr>),
                Closed)))"
  by (simp add: extract_route_def Let_def split_beta split: sum.splits)

lemma extract_text_in_range:
  "\<forall>i \<in> set sel. 0 \<le> i \<and> i < int (length (d_pages doc)) \<Longrightarrow>
   extract_text doc sel =
     Inr \<lparr>r_text = join blank_line (map (\<lambda>i. p_text (d_pages doc ! nat i)) sel),
          r_pages_detail = None\<rparr>"
  by (simp add: extract_text_def collect_texts_in_range)


lemma strip_idem: "strip (strip s) = strip s"
proof -
  let ?t = "dropWhile is_space s"
  let ?u = "dropWhile is_space (rev ?t)"
  show ?thesis
  proof (cases "?u = []")
    case True
    have "strip s = rev ?u" unfolding strip_def ..
    then have e: "strip s = []" by (simp only: True rev.simps)
    have "strip [] = []" by (simp add: strip_def)
    then show ?thesis by (simp only: e)
  next
    case False
    then have hd_u: "\<not> is_space (hd ?u)" by (rule hd_dropWhile)
    from False have t: "?t \<noteq> []" by (metis dropWhile.simps(1) rev.simps(1))
    then have hd_t: "\<not> is_space (hd ?t)" by (rule hd_dropWhile)
    have "last ?u = last (rev ?t)"
      using False by (metis last_appendR takeWhile_dropWhile_id)
    then have "last ?u = hd ?t" using t by (simp add: last_rev)
    then have "\<not> is_space (hd (rev ?u))" using False hd_t by (simp add: hd_rev)
    then have 1: "dropWhile is_space (rev ?u) = rev ?u"
      by (simp add: dropWhile_eq_self_iff)
    have 2: "dropWhile is_space ?u = ?u" using hd_u by (simp add: dropWhile_eq_self_iff)
    show ?thesis unfolding strip_def by (simp only: 1 rev_rev_ident 2)
  qed
qed

lemma scan_blocks_filter:
  "scan_blocks bs (page_text, page_blocks) =
     (page_text @ map (\<lambda>b. strip (b_text b)) (filter spec_kept bs),
      page_blocks @ map spec_emit (filter spec_kept bs))"
  by (induction bs arbitrary: page_text page_blocks)
    (simp_all add: Let_def spec_kept_def spec_emit_def spec_bbox_def)

lemma collect_blocks_in_range:
  "\<forall>i \<in> set sel. 0 \<le> i \<and> i < int (length (d_pages doc)) \<Longrightarrow>
   collect_blocks doc sel (all_text, pages_detail) =
     Inr (all_text @
            map (\<lambda>i. join newline
                  (map (\<lambda>b. strip (b_text b)) (filter spec_kept (p_blocks (d_pages doc ! nat i)))))
              sel,
          pages_detail @ map (spec_page_detail doc) sel)"
  by (induction sel arbitrary: all_text pages_detail)
    (simp_all add: doc_getitem_def scan_blocks_filter spec_page_detail_def)

text \<open>
  C8: for a selection of valid indices, block extraction returns one detail entry per
  selected page, holding the kept blocks of that page in their original order; every
  emitted block has a non-empty trimmed text and comes from a block of that page of
  text kind, with that block's bounding box unchanged.
\<close>

theorem extract_blocks_keeps_text_blocks:
  "((\<forall>i \<in> set sel. 0 \<le> i \<and> i < int (length (d_pages doc))) \<longrightarrow>
      (\<exists>text. extract_blocks doc sel =
         Inr \<lparr>r_text = text, r_pages_detail = Some (map (spec_page_detail doc) sel)\<rparr>))
   \<and> (\<forall>ob \<in> set (pd_blocks (spec_page_detail doc i)).
        strip (ob_text ob) \<noteq> [] \<and>
        (\<exists>b \<in> set (p_blocks (d_pages doc ! nat i)).
           b_type b = 0 \<and> ob_text ob = strip (b_text b) \<and>
           ob_bbox ob = \<lparr>x0 = b_x0 b, y0 = b_y0 b, x1 = b_x1 b, y1 = b_y1 b\<rparr>))"
proof (intro conjI impI ballI)
  assume "\<forall>i \<in> set sel. 0 \<le> i \<and> i < int (length (d_pages doc))"
  then show "\<exists>text. extract_blocks doc sel =
      Inr \<lparr>r_text = text, r_pages_detail = Some (map (spec_page_detail doc) sel)\<rparr>"
    by (simp add: extract_blocks_def collect_blocks_in_range)
next
  fix ob assume "ob \<in> set (pd_blocks (spec_page_detail doc i))"
  then obtain b where b: "b \<in> set (p_blocks (d_pages doc ! nat i))" "spec_kept b"
    and ob: "ob = spec_emit b"
    by (auto simp: spec_page_detail_def)
  from b ob show "strip (ob_text ob) \<noteq> []"
    by (simp add: spec_emit_def spec_kept_def strip_idem)
  from b ob show "\<exists>b \<in> set (p_blocks (d_pages doc ! nat i)).
      b_type b = 0 \<and> ob_text ob = strip (b_text b) \<and>
      ob_bbox ob = \<lparr>x0 = b_x0 b, y0 = b_y0 b, x1 = b_x1 b, y1 = b_y1 b\<rparr>"
    by (auto simp: spec_emit_def spec_kept_def spec_bbox_def)
qed


theorem extract_blocks_keeps_text_blocks_witness:
  "(\<exists>text. extract_blocks doc_blocks [0] =
      Inr \<lparr>r_text = text, r_pages_detail = Some (map (spec_page_detail doc_blocks) [0])\<rparr>)
   \<and> pd_blocks (spec_page_detail doc_blocks 0) =
       [\<lparr>ob_text = ''Hello'', ob_bbox = \<lparr>x0 = 72, y0 = 72, x1 = 200, y1 = 90\<rparr>\<rparr>,
        \<lparr>ob_text = ''World'', ob_bbox = \<lparr>x0 = 72, y0 = 430, x1 = 200, y1 = 450\<rparr>\<rparr>]
   \<and> strip (ob_text \<lparr>ob_text = ''Hello'', ob_bbox = \<lparr>x0 = 72, y0 = 72, x1 = 200, y1 = 90\<rparr>\<rparr>)
       \<noteq> []"
proof -
  have r: "\<forall>i \<in> set [0]. 0 \<le> i \<and> i < int (length (d_pages doc_blocks))"
    by (simp add: doc_blocks_def)
  have d: "pd_blocks (spec_page_detail doc_blocks 0) =
       [\<lparr>ob_text = ''Hello'', ob_bbox = \<lparr>x0 = 72, y0 = 72, x1 = 200, y1 = 90\<rparr>\<rparr>,
        \<lparr>ob_text = ''World'', ob_bbox = \<lparr>x0 = 72, y0 = 430, x1 = 200, y1 = 450\<rparr>\<rparr>]"
    by code_simp
  have m: "\<lparr>ob_text = ''Hello'', ob_bbox = \<lparr>x0 = 72, y0 = 72, x1 = 200, y1 = 90\<rparr>\<rparr>
      \<in> set (pd_blocks (spec_page_detail doc_blocks 0))"
    by (simp only: d) simp
  show ?thesis
    using extract_blocks_keeps_text_blocks [of "[0]" doc_blocks 0] r d m by blast
qed


section \<open>Properties of the handlers\<close>

lemma binary64_examples:
  "binary64 (1 / 2) = 1 / 2 \<and> binary64 (13 / 40) = 5854679515581645 / 18014398509481984"
  by code_simp

lemma py_round2_examples:
  "py_round2 (13 / 40) = 33 / 100 \<and> py_round2 (1 / 8) = 12 / 100 \<and>
   py_round2 (3 / 8) = 38 / 100 \<and> py_round2 (1 / 3) = 33 / 100 \<and>
   py_round2 (2 / 3) = 67 / 100 \<and> py_round2 0 = 0 \<and> py_round2 1 = 1"
  by code_simp

lemma extract_route_Success:
  assumes "extract_route fitz_open req = ((st, Success p), h)"
  shows "\<exists>bytes doc. fitz_open bytes = Inr doc \<and> e_pdf_type p = snd (is_native_pdf doc) \<and>
           e_needs_ocr p = (snd (is_native_pdf doc) = ''scanned'') \<and>
           (output_format req \<noteq> ''blocks'' \<longrightarrow> e_pages_detail p = None)"
  using assms
  by (auto simp: extract_route_def Let_def split_beta
      split: sum.splits option.splits if_splits) blast+

lemma info_Success:
  assumes "info fitz_open req = ((st, Success q), h)"
  shows "\<exists>bytes doc. fitz_open bytes = Inr doc \<and> i_pdf_type q = snd (is_native_pdf doc) \<and>
           i_needs_ocr q = (snd (is_native_pdf doc) = ''scanned'')"
  using assms
  by (auto simp: info_def Let_def split_beta split: sum.splits option.splits if_splits)
    blast+

lemma is_native_pdf_labels:
  "snd (is_native_pdf doc) \<in> {''native'', ''mixed'', ''empty'', ''scanned''}"
  by (simp add: is_native_pdf_unfold)

text \<open>
  C9: in every successful response of \<^verbatim>\<open>/extract\<close> and of \<^verbatim>\<open>/info\<close>, the flag
  \<^verbatim>\<open>needs_ocr\<close> holds exactly when the label is \<open>scanned\<close>; the label is the
  classifier's, one of native, mixed, empty and scanned, so the flag is false for the
  other three.
\<close>

theorem needs_ocr_iff_scanned:
  "(extract_route fitz_open req = ((st, Success p), h) \<longrightarrow>
      (e_needs_ocr p \<longleftrightarrow> e_pdf_type p = ''scanned'') \<and>
      e_pdf_type p \<in> {''native'', ''mixed'', ''empty'', ''scanned''} \<and>
      (\<exists>bytes doc. fitz_open bytes = Inr doc \<and> e_pdf_type p = snd (is_native_pdf doc)))
   \<and> (info fitz_open req' = ((st', Success q), h') \<longrightarrow>
      (i_needs_ocr q \<longleftrightarrow> i_pdf_type q = ''scanned'') \<and>
      i_pdf_type q \<in> {''native'', ''mixed'', ''empty'', ''scanned''} \<and>
      (\<exists>bytes doc. fitz_open bytes = Inr doc \<and> i_pdf_type q = snd (is_native_pdf doc)))"
proof (intro conjI impI)
  assume a: "extract_route fitz_open req = ((st, Success p), h)"
  from extract_route_Success [OF a] obtain bytes doc where
    d: "fitz_open bytes = Inr doc" "e_pdf_type p = snd (is_native_pdf doc)"
       "e_needs_ocr p = (snd (is_native_pdf doc) = ''scanned'')"
    by blast
  show "e_needs_ocr p \<longleftrightarrow> e_pdf_type p = ''scanned''" using d by simp
  show "e_pdf_type p \<in> {''native'', ''mixed'', ''empty'', ''scanned''}"
    using d is_native_pdf_labels [of doc] by simp
  show "\<exists>bytes doc. fitz_open bytes = Inr doc \<and> e_pdf_type p = snd (is_native_pdf doc)"
    using d by blast
next
  assume a: "info fitz_open req' = ((st', Success q), h')"
  from info_Success [OF a] obtain bytes doc where
    d: "fitz_open bytes = Inr doc" "i_pdf_type q = snd (is_native_pdf doc)"
       "i_needs_ocr q = (snd (is_native_pdf doc) = ''scanned'')"
    by blast
  show "i_needs_ocr q \<longleftrightarrow> i_pdf_type q = ''scanned''" using d by simp
  show "i_pdf_type q \<in> {''native'', ''mixed'', ''empty'', ''scanned''}"
    using d is_native_pdf_labels [of doc] by simp
  show "\<exists>bytes doc. fitz_open bytes = Inr doc \<and> i_pdf_type q = snd (is_native_pdf doc)"
    using d by blast
qed


theorem needs_ocr_iff_scanned_witness:
  "(\<exists>p. extract_route (open_as doc_scanned) (mk_request None None) =
         ((200, Success p), Closed) \<and>
       (e_needs_ocr p \<longleftrightarrow> e_pdf_type p = ''scanned'') \<and>
       e_pdf_type p \<in> {''native'', ''mixed'', ''empty'', ''scanned''})
   \<and> (\<exists>q. info (open_as doc_long) (mk_request None None) = ((200, Success q), Closed) \<and>
       (i_needs_ocr q \<longleftrightarrow> i_pdf_type q = ''scanned'') \<and>
       i_pdf_type q \<in> {''native'', ''mixed'', ''empty'', ''scanned''})"
proof -
  have "fst (extract_route (open_as doc_scanned) (mk_request None None)) =
      (200,
       Success
         \<lparr>e_text = '' '', e_pages_count = 1, e_pages_extracted = 1,
          e_characters_count = 1, e_pdf_type = ''scanned'', e_native_score = 0,
          e_needs_ocr = True, e_pages_detail = None\<rparr>)"
    and "snd (extract_route (open_as doc_scanned) (mk_request None None)) = Closed"
    by code_simp+
  then obtain p where
    p: "extract_route (open_as doc_scanned) (mk_request None None) = ((200, Success p), Closed)"
    by (metis prod.collapse)
  have "fst (fst (info (open_as doc_long) (mk_request None None))) = 200"
    and "snd (info (open_as doc_long) (mk_request None None)) = Closed"
    and "case snd (fst (info (open_as doc_long) (mk_request None None))) of
           Success q \<Rightarrow> True | MissingFile \<Rightarrow> False | Failed e \<Rightarrow> False"
    by code_simp+
  then obtain q where
    q: "info (open_as doc_long) (mk_request None None) = ((200, Success q), Closed)"
    by (metis (no_types, lifting) body.exhaust body.simps(10) body.simps(11) prod.collapse)
  from needs_ocr_iff_scanned [where fitz_open = "open_as doc_scanned"
      and req = "mk_request None None" and st = 200 and h = Closed and p = p] p
  have 1: "(e_needs_ocr p \<longleftrightarrow> e_pdf_type p = ''scanned'') \<and>
      e_pdf_type p \<in> {''native'', ''mixed'', ''empty'', ''scanned''}"
    by blast
  from needs_ocr_iff_scanned [where fitz_open = "open_as doc_long"
      and req' = "mk_request None None" and st' = 200 and h' = Closed and q = q] q
  have 2: "(i_needs_ocr q \<longleftrightarrow> i_pdf_type q = ''scanned'') \<and>
      i_pdf_type q \<in> {''native'', ''mixed'', ''empty'', ''scanned''}"
    by blast
  from p q 1 2 show ?thesis by blast
qed

lemma output_format_set_text:
  "output_format (req\<lparr>rq_form := (rq_form req)(''format'' \<mapsto> ''text'')\<rparr>) = ''text''"
  by (simp add: output_format_def py_or_def truthy_def)

lemma select_pages_set_format:
  "select_pages (req\<lparr>rq_form := (rq_form req)(''format'' \<mapsto> v)\<rparr>) n = select_pages req n"
  by (simp add: select_pages_def pages_param_def)

lemma extract_route_text_mode:
  assumes "output_format req \<noteq> ''blocks''"
  shows "extract_route fitz_open req =
    (case rq_pdf req of
       Inl e \<Rightarrow> ((500, Failed e), NotOpened)
     | Inr None \<Rightarrow> ((400, MissingFile), NotOpened)
     | Inr (Some pdf_bytes) \<Rightarrow>
         if pdf_bytes = [] then ((400, MissingFile), NotOpened)
         else
           (case fitz_open pdf_bytes of
              Inl e \<Rightarrow> ((500, Failed e), NotOpened)
            | Inr doc \<Rightarrow>
                (case select_pages req (int (length (d_pages doc))) of
                   Inl e \<Rightarrow> ((500, Failed e), Opened)
                 | Inr sel \<Rightarrow>
                     (case extract_text doc sel of
                        Inl e \<Rightarrow> ((500, Failed e), Opened)
                      | Inr result \<Rightarrow>
                          ((200,
                            Success
                              \<lparr>e_text = r_text result,
                               e_pages_count = int (length (d_pages doc)),
                               e_pages_extracted = int (length sel),
                               e_characters_count = int (length (r_text result)),
                               e_pdf_type = snd (is_native_pdf doc),
                               e_native_score = py_round2 (fst (is_native_pdf doc)),
                               e_needs_ocr = (snd (is_native_pdf doc) = ''scanned''),
                               e_pages_detail = None\<rparr>),
                           Closed)))))"
  using assms
  by (simp add: extract_route_def Let_def split_beta split: sum.splits option.splits)

text \<open>
  C10: a request whose format is anything but \<open>blocks\<close>, an unknown word or the empty
  string included, gets the response of the same request with format \<open>text\<close>; its
  successful response has no page details; and once the document is open and the pages
  are resolved, the response is the successful text extraction: no error is raised for
  the format.
\<close>

theorem unrecognised_format_is_text:
  "(output_format req \<noteq> ''blocks'' \<longrightarrow>
      extract_route fitz_open req =
        extract_route fitz_open (req\<lparr>rq_form := (rq_form req)(''format'' \<mapsto> ''text'')\<rparr>))
   \<and> (output_format req \<noteq> ''blocks'' \<and> extract_route fitz_open req = ((st, Success p), h) \<longrightarrow>
        e_pages_detail p = None)
   \<and> (output_format req \<noteq> ''blocks'' \<and> rq_pdf req = Inr (Some bytes) \<and> bytes \<noteq> [] \<and>
        fitz_open bytes = Inr doc \<and> select_pages req (int (length (d_pages doc))) = Inr sel \<longrightarrow>
        (\<exists>res. extract_text doc sel = Inr res \<and>
           extract_route fitz_open req =
             ((200,
               Success
                 \<lparr>e_text = r_text res,
                  e_pages_count = int (length (d_pages doc)),
                  e_pages_extracted = int (length sel),
                  e_characters_count = int (length (r_text res)),
                  e_pdf_type = snd (is_native_pdf doc),
                  e_native_score = py_round2 (fst (is_native_pdf doc)),
                  e_needs_ocr = (snd (is_native_pdf doc) = ''scanned''),
                  e_pages_detail = None\<rparr>),
              Closed)))"
proof (intro conjI impI)
  assume a: "output_format req \<noteq> ''blocks''"
  let ?req' = "req\<lparr>rq_form := (rq_form req)(''format'' \<mapsto> ''text'')\<rparr>"
  have b: "output_format ?req' \<noteq> ''blocks''" by (simp add: output_format_set_text)
  show "extract_route fitz_open req = extract_route fitz_open ?req'"
    by (simp add: extract_route_text_mode [OF a] extract_route_text_mode [OF b]
        select_pages_set_format cong: sum.case_cong option.case_cong if_cong)
next
  assume "output_format req \<noteq> ''blocks'' \<and> extract_route fitz_open req = ((st, Success p), h)"
  then show "e_pages_detail p = None"
    using extract_route_Success by blast
next
  assume h: "output_format req \<noteq> ''blocks'' \<and> rq_pdf req = Inr (Some bytes) \<and> bytes \<noteq> [] \<and>
        fitz_open bytes = Inr doc \<and> select_pages req (int (length (d_pages doc))) = Inr sel"
  then have "\<forall>i \<in> set sel. 0 \<le> i \<and> i < int (length (d_pages doc))"
    using select_pages_bounds by blast
  then have t: "extract_text doc sel =
     Inr \<lparr>r_text = join blank_line (map (\<lambda>i. p_text (d_pages doc ! nat i)) sel),
          r_pages_detail = None\<rparr>"
    by (rule extract_text_in_range)
  from h have r: "rq_pdf req = Inr (Some bytes)" and ne: "bytes \<noteq> []"
    and fo: "fitz_open bytes = Inr doc" by simp_all
  show "\<exists>res. extract_text doc sel = Inr res \<and>
           extract_route fitz_open req =
             ((200,
               Success
                 \<lparr>e_text = r_text res,
                  e_pages_count = int (length (d_pages doc)),
                  e_pages_extracted = int (length sel),
                  e_characters_count = int (length (r_text res)),
                  e_pdf_type = snd (is_native_pdf doc),
                  e_native_score = py_round2 (fst (is_native_pdf doc)),
                  e_needs_ocr = (snd (is_native_pdf doc) = ''scanned''),
                  e_pages_detail = None\<rparr>),
              Closed)"
    using h t by (simp add: extract_route_opened [of req bytes fitz_open doc, OF r ne fo])
qed

theorem unrecognised_format_is_text_witness:
  "extract_route (open_as doc_blocks) (mk_request None (Some ''xyz'')) =
     extract_route (open_as doc_blocks)
       ((mk_request None (Some ''xyz''))
          \<lparr>rq_form := (rq_form (mk_request None (Some ''xyz'')))(''format'' \<mapsto> ''text'')\<rparr>)
   \<and> output_format (mk_request None (Some '''')) = ''text''
   \<and> (\<exists>res. extract_text doc_blocks [0] = Inr res \<and>
        extract_route (open_as doc_blocks) (mk_request None (Some '''')) =
          ((200,
            Success
              \<lparr>e_text = r_text res,
               e_pages_count = int (length (d_pages doc_blocks)),
               e_pages_extracted = int (length [0 :: int]),
               e_characters_count = int (length (r_text res)),
               e_pdf_type = snd (is_native_pdf doc_blocks),
               e_native_score = py_round2 (fst (is_native_pdf doc_blocks)),
               e_needs_ocr = (snd (is_native_pdf doc_blocks) = ''scanned''),
               e_pages_detail = None\<rparr>),
           Closed))"
proof -
  have f1: "output_format (mk_request None (Some ''xyz'')) \<noteq> ''blocks''" by code_simp
  have f2: "output_format (mk_request None (Some '''')) = ''text''" by code_simp
  then have f3: "output_format (mk_request None (Some '''')) \<noteq> ''blocks''" by simp
  have r: "rq_pdf (mk_request None (Some '''')) = Inr (Some ''%PDF-1.7'')"
    by (simp add: mk_request_def)
  have ne: "''%PDF-1.7'' \<noteq> []" by simp
  have fo: "open_as doc_blocks ''%PDF-1.7'' = Inr doc_blocks" by (simp add: open_as_def)
  have sp: "select_pages (mk_request None (Some '''')) (int (length (d_pages doc_blocks))) =
      Inr [0]"
    by code_simp
  have a: "extract_route (open_as doc_blocks) (mk_request None (Some ''xyz'')) =
     extract_route (open_as doc_blocks)
       ((mk_request None (Some ''xyz''))
          \<lparr>rq_form := (rq_form (mk_request None (Some ''xyz'')))(''format'' \<mapsto> ''text'')\<rparr>)"
    using unrecognised_format_is_text [where req = "mk_request None (Some ''xyz'')"
        and fitz_open = "open_as doc_blocks"] f1
    by blast
  have b: "\<exists>res. extract_text doc_blocks [0] = Inr res \<and>
        extract_route (open_as doc_blocks) (mk_request None (Some '''')) =
          ((200,
            Success
              \<lparr>e_text = r_text res,
               e_pages_count = int (length (d_pages doc_blocks)),
               e_pages_extracted = int (length [0 :: int]),
               e_characters_count = int (length (r_text res)),
               e_pdf_type = snd (is_native_pdf doc_blocks),
               e_native_score = py_round2 (fst (is_native_pdf doc_blocks)),
               e_needs_ocr = (snd (is_native_pdf doc_blocks) = ''scanned''),
               e_pages_detail = None\<rparr>),
           Closed)"
    using unrecognised_format_is_text [where req = "mk_request None (Some '''')"
        and fitz_open = "open_as doc_blocks" and bytes = "''%PDF-1.7''" and doc = doc_blocks
        and sel = "[0]"] f3 r ne fo sp
    by blast
  from a f2 b show ?thesis by blast
qed







text \<open>
  C3: the handler closes the document on its successful path only. For the page
  expression \<open>1-2-3\<close> the parse raises after the document has been opened, and the
  response of status 500 is produced with the document still open; for \<open>1-2\<close> the
  document is closed.
\<close>

theorem parse_error_leaves_document_open:
  "extract_route (open_as doc_long) (mk_request (Some ''1-2-3'') None) =
     ((500, Failed TooManyValues), Opened)
   \<and> snd (extract_route (open_as doc_long) (mk_request (Some ''1-2'') None)) = Closed"
  by code_simp

end
